theory Spec2Isabelle
  imports Main "HOL-Library.Sublist"
begin

section \<open>Go strings and the standard library functions the package calls\<close>

text \<open>
  A Go string is a sequence of bytes, so it is a \<^typ>\<open>string\<close> here (a list of 8-bit
  characters). \<^verbatim>\<open>strings.TrimSpace\<close> removes leading and trailing white space as Unicode
  defines it; the string is read as UTF-8. The code points with the White_Space property
  are U+0009..U+000D, U+0020, U+0085, U+00A0, U+1680, U+2000..U+200A, U+2028, U+2029,
  U+202F, U+205F and U+3000. Go's decoder accepts only the shortest encoding of a code
  point and reads any other byte as the one-byte rune U+FFFD, which is not white space, so
  a rune at the start (or at the end) of a string is white space exactly when one of the
  byte sequences below is a prefix (or a suffix) of the string.
\<close>

definition whiteSpace :: "string list" where
  "whiteSpace =
     [[CHR 0x09], [CHR 0x0A], [CHR 0x0B], [CHR 0x0C], [CHR 0x0D], [CHR 0x20],
      [CHR 0xC2, CHR 0x85], [CHR 0xC2, CHR 0xA0],
      [CHR 0xE1, CHR 0x9A, CHR 0x80],
      [CHR 0xE2, CHR 0x80, CHR 0x80], [CHR 0xE2, CHR 0x80, CHR 0x81],
      [CHR 0xE2, CHR 0x80, CHR 0x82], [CHR 0xE2, CHR 0x80, CHR 0x83],
      [CHR 0xE2, CHR 0x80, CHR 0x84], [CHR 0xE2, CHR 0x80, CHR 0x85],
      [CHR 0xE2, CHR 0x80, CHR 0x86], [CHR 0xE2, CHR 0x80, CHR 0x87],
      [CHR 0xE2, CHR 0x80, CHR 0x88], [CHR 0xE2, CHR 0x80, CHR 0x89],
      [CHR 0xE2, CHR 0x80, CHR 0x8A],
      [CHR 0xE2, CHR 0x80, CHR 0xA8], [CHR 0xE2, CHR 0x80, CHR 0xA9],
      [CHR 0xE2, CHR 0x80, CHR 0xAF],
      [CHR 0xE2, CHR 0x81, CHR 0x9F],
      [CHR 0xE3, CHR 0x80, CHR 0x80]]"

text \<open>The white-space rune a string starts with, and the one it ends with, if any.\<close>

definition leadingSpace :: "string \<Rightarrow> string option" where
  "leadingSpace s = find (\<lambda>w. prefix w s) whiteSpace"

definition trailingSpace :: "string \<Rightarrow> string option" where
  "trailingSpace s = find (\<lambda>w. suffix w s) whiteSpace"

text \<open>
  \<^verbatim>\<open>strings.TrimSpace(s)\<close> is \<^verbatim>\<open>TrimRightFunc(TrimLeftFunc(s, unicode.IsSpace), unicode.IsSpace)\<close>:
  white-space runes are dropped from the front while there is one, then from the back.
\<close>

function TrimLeft :: "string \<Rightarrow> string" where
  "TrimLeft s =
     (case leadingSpace s of None \<Rightarrow> s | Some w \<Rightarrow> TrimLeft (drop (length w) s))"
  by pat_completeness auto
termination
proof (relation "measure length")
  show "wf (measure length)" by simp
next
  fix s w assume "leadingSpace s = Some w"
  then have "w \<in> set whiteSpace" "prefix w s"
    unfolding leadingSpace_def by (auto simp: find_Some_iff)
  then have "w \<noteq> []" "prefix w s" by (auto simp: whiteSpace_def)
  then have "s \<noteq> []" by auto
  with \<open>w \<noteq> []\<close> show "(drop (length w) s, s) \<in> measure length" by simp
qed

function TrimRight :: "string \<Rightarrow> string" where
  "TrimRight s =
     (case trailingSpace s of None \<Rightarrow> s
      | Some w \<Rightarrow> TrimRight (take (length s - length w) s))"
  by pat_completeness auto
termination
proof (relation "measure length")
  show "wf (measure length)" by simp
next
  fix s w assume "trailingSpace s = Some w"
  then have "w \<in> set whiteSpace" "suffix w s"
    unfolding trailingSpace_def by (auto simp: find_Some_iff)
  then have "w \<noteq> []" "suffix w s" by (auto simp: whiteSpace_def)
  then have "s \<noteq> []" by auto
  with \<open>w \<noteq> []\<close> show "(take (length s - length w) s, s) \<in> measure length" by simp
qed

definition TrimSpace :: "string \<Rightarrow> string" where
  "TrimSpace s = TrimRight (TrimLeft s)"

text \<open>\<^verbatim>\<open>strings.Join(elems, sep)\<close>: the elements, with the separator between neighbours.\<close>

fun Join :: "string list \<Rightarrow> string \<Rightarrow> string" where
  "Join [] sep = []"
| "Join [x] sep = x"
| "Join (x # y # ys) sep = x @ sep @ Join (y # ys) sep"



definition StatusNotImplemented :: int where
  "StatusNotImplemented = 501"

section \<open>Error values\<close>

text \<open>
  A Go \<^verbatim>\<open>error\<close> is an interface value: nil, or a value of some concrete type, which has or
  has not each of the single-method interfaces of the package. The concrete types are the
  three of the package (\<^verbatim>\<open>publicStatusError\<close>, \<^verbatim>\<open>publicStatusCodeError\<close>,
  \<^verbatim>\<open>temporaryError\<close>), the wrapper that \<^verbatim>\<open>errors.Wrap\<close> of the collaborating package
  \<^verbatim>\<open>github.com/jjeffery/errors\<close> returns, and any type of another package, given by the
  methods it has: \<open>None\<close> where it lacks the method, \<open>Some v\<close> where the method returns \<open>v\<close>.

  A Go \<^verbatim>\<open>int\<close> is a machine integer; the package stores and compares statuses and never
  computes with them, so they are of type \<^typ>\<open>int\<close> here.
\<close>

record methods =
  errorM :: string
  temporaryM :: "bool option"
  codeM :: "string option"
  statusCodeM :: "int option"
  statusM :: "int option"
  publicM :: "bool option"

text \<open>
  The key/value pairs of \<^verbatim>\<open>With(keyvals ...interface{})\<close> alternate keys and values; they
  are kept as pairs, each value by its printed form.
\<close>

type_synonym keyvals = "(string \<times> string) list"

datatype err =
    PublicStatusError string int
  | PublicStatusCodeError string int string
  | TemporaryError string
  | Wrapped err string keyvals
  | Other methods "err option"

text \<open>
  \<open>PublicStatusError message status\<close>, \<open>PublicStatusCodeError message status code\<close> and
  \<open>TemporaryError msg\<close> are the package's types (lines 173, 199 and 339).
  \<open>Wrapped cause message keyvals\<close> is the collaborator's wrapper, with the context it
  was given. \<open>Other m c\<close> is a value of a foreign type with the methods \<open>m\<close>; it implements
  \<^verbatim>\<open>causer\<close> (line 49) when \<open>c = Some cause\<close>, and then \<^verbatim>\<open>Cause()\<close> returns that error.
  Values are finite trees, so a cause chain always ends; a chain that loops is not a
  value of this type.
\<close>

type_synonym error = "err option"

subsection \<open>Interface assertions\<close>

text \<open>
  \<open>asCoder e\<close> is \<^verbatim>\<open>e.(coder)\<close> followed by the call of the method: \<open>None\<close> when the
  assertion fails, \<open>Some\<close> of the method's result otherwise; likewise for the other
  interfaces. The methods are those of lines 178-227 and 339-347 of \<^verbatim>\<open>errkind.go\<close>.
  The wrapper has the method \<^verbatim>\<open>Cause\<close> and, as the spec says of it, does not itself
  implement \<^verbatim>\<open>publicer\<close>; the other queries resolve the cause before they assert, so they
  never assert on a wrapper.
\<close>

fun asTemporaryer :: "err \<Rightarrow> bool option" where
  "asTemporaryer (TemporaryError t) = Some True"
| "asTemporaryer (Other m c) = temporaryM m"
| "asTemporaryer e = None"

fun asCoder :: "err \<Rightarrow> string option" where
  "asCoder (PublicStatusCodeError message status code) = Some code"
| "asCoder (Other m c) = codeM m"
| "asCoder e = None"

fun asStatusCoder :: "err \<Rightarrow> int option" where
  "asStatusCoder (PublicStatusError message status) = Some status"
| "asStatusCoder (PublicStatusCodeError message status code) = Some status"
| "asStatusCoder (Other m c) = statusCodeM m"
| "asStatusCoder e = None"

fun asStatuser :: "err \<Rightarrow> int option" where
  "asStatuser (PublicStatusError message status) = Some status"
| "asStatuser (PublicStatusCodeError message status code) = Some status"
| "asStatuser (Other m c) = statusM m"
| "asStatuser e = None"

fun asPublicer :: "err \<Rightarrow> bool option" where
  "asPublicer (PublicStatusError message status) = Some True"
| "asPublicer (PublicStatusCodeError message status code) = Some True"
| "asPublicer (Other m c) = publicM m"
| "asPublicer e = None"

fun asCauser :: "err \<Rightarrow> err option" where
  "asCauser (Wrapped cause message kvs) = Some cause"
| "asCauser (Other m c) = c"
| "asCauser e = None"

section \<open>The collaborator: wrapping and cause resolution\<close>

text \<open>
  The package \<^verbatim>\<open>github.com/jjeffery/errors\<close> is not part of this repository; the spec
  gives its contract, and the definitions of this section follow it.
\<close>

text \<open>
  Modelled from the spec: \<^verbatim>\<open>Wrap(err, context)\<close> of the collaborator, which produces a new
  error whose cause is \<^verbatim>\<open>err\<close>. The package only wraps errors that are not nil. A call
  without a message, as in lines 195, 226 and 351, has the empty message.
\<close>

definition Wrap :: "err \<Rightarrow> string \<Rightarrow> err" where
  "Wrap e message = Wrapped e message []"

text \<open>
  Modelled from the spec: the walk of \<^verbatim>\<open>Cause\<close> of the collaborator along the chain,
  \<open>cause(e) = cause(inner)\<close> if \<open>e\<close> exposes an inner error, else \<open>e\<close>.
\<close>

fun innermost :: "err \<Rightarrow> err" where
  "innermost (Wrapped cause message kvs) = innermost cause"
| "innermost (Other m (Some cause)) = innermost cause"
| "innermost e = e"

text \<open>
  Modelled from the spec: \<^verbatim>\<open>Cause(err)\<close> of the collaborator, which walks the chain to the
  innermost error and returns nil only if the input was nil. A causer whose \<^verbatim>\<open>Cause()\<close>
  returns nil is outside that contract and is not a value of \<^typ>\<open>err\<close>.
\<close>

definition Cause :: "error \<Rightarrow> error" where
  "Cause err = (case err of None \<Rightarrow> None | Some e \<Rightarrow> Some (innermost e))"

text \<open>
  Modelled from the spec: the collaborator's facility for attaching key/value context,
  \<^verbatim>\<open>With(keyvals...)\<close>, on the wrapper. It returns a wrapper of the same cause with the
  pairs added: the package's tests expect \<^verbatim>\<open>errors.Wrap(e, "wrapped").With("a", "b")\<close> to
  print as \<^verbatim>\<open>wrapped a=b: ...\<close>, one context before one colon. It is only applied to
  wrappers.
\<close>

definition wrapperWith :: "err \<Rightarrow> keyvals \<Rightarrow> err" where
  "wrapperWith w keyvals =
     (case w of
        Wrapped cause message kvs \<Rightarrow> Wrapped cause message (kvs @ keyvals)
      | _ \<Rightarrow> w)"

text \<open>
  The method \<^verbatim>\<open>With\<close> of the interface \<^verbatim>\<open>errors.Error\<close>. On the package's own types
  (lines 194 and 225) it is \<^verbatim>\<open>errors.Wrap(s).With(keyvals...)\<close>; on a wrapper it is the
  wrapper's method. A foreign type is treated as the package's own types are.
\<close>

definition With :: "err \<Rightarrow> keyvals \<Rightarrow> err" where
  "With s keyvals =
     (case s of
        Wrapped cause message kvs \<Rightarrow> wrapperWith s keyvals
      | _ \<Rightarrow> wrapperWith (Wrap s []) keyvals)"

text \<open>
  Modelled from the spec: the text of a wrapper. The spec gives \<^verbatim>\<open>"y: x"\<close> for an error of
  text \<^verbatim>\<open>x\<close> wrapped with the label \<^verbatim>\<open>y\<close>, and \<^verbatim>\<open>x\<close> itself for \<^verbatim>\<open>Temporary("x")\<close>, which
  is wrapped with no label; the package's tests expect \<^verbatim>\<open>wrapped a=b: temp\<close> for a wrapper
  with the pair \<^verbatim>\<open>a\<close>, \<^verbatim>\<open>b\<close>. So the context is the message, then \<^verbatim>\<open>key=value\<close> for each
  pair, separated by spaces, and a wrapper with an empty context prints as its cause.
\<close>

definition contextText :: "string \<Rightarrow> keyvals \<Rightarrow> string" where
  "contextText message kvs =
     Join (filter (\<lambda>t. t \<noteq> []) [message] @ map (\<lambda>(k, v). k @ ''='' @ v) kvs) '' ''"

text \<open>
  \<^verbatim>\<open>Error()\<close>: lines 178, 205 and 341 for the package's types, the text above for a
  wrapper, and whatever its method returns for a foreign type.
\<close>

fun Error :: "err \<Rightarrow> string" where
  "Error (PublicStatusError message status) = message"
| "Error (PublicStatusCodeError message status code) = message"
| "Error (TemporaryError t) = t"
| "Error (Wrapped cause message kvs) =
     (if contextText message kvs = [] then Error cause
      else contextText message kvs @ '': '' @ Error cause)"
| "Error (Other m c) = errorM m"

section \<open>Capability queries\<close>

text \<open>The loop \<^verbatim>\<open>for _, x := range xs { if v == x { return true } }\<close> of lines 90, 107 and 115.\<close>

fun anyEqual :: "'a \<Rightarrow> 'a list \<Rightarrow> bool" where
  "anyEqual v [] = False"
| "anyEqual v (x # xs) = (if v = x then True else anyEqual v xs)"

text \<open>
  Lines 83-151. Each query first resolves the cause and returns its zero value when the
  cause is nil. \<^verbatim>\<open>HasStatus\<close> returns from the first loop on a match and goes on to the
  second assertion otherwise.
\<close>

definition HasCode :: "error \<Rightarrow> string list \<Rightarrow> bool" where
  "HasCode err codes =
     (case Cause err of
        None \<Rightarrow> False
      | Some e \<Rightarrow>
          (case asCoder e of
             Some errCode \<Rightarrow> anyEqual errCode codes
           | None \<Rightarrow> False))"

definition HasStatus :: "error \<Rightarrow> int list \<Rightarrow> bool" where
  "HasStatus err statuses =
     (case Cause err of
        None \<Rightarrow> False
      | Some e \<Rightarrow>
          if (case asStatusCoder e of
                Some errStatus \<Rightarrow> anyEqual errStatus statuses
              | None \<Rightarrow> False)
          then True
          else (case asStatuser e of
                  Some errStatus \<Rightarrow> anyEqual errStatus statuses
                | None \<Rightarrow> False))"

definition Status :: "error \<Rightarrow> int" where
  "Status err =
     (case Cause err of
        None \<Rightarrow> 0
      | Some e \<Rightarrow>
          (case asStatusCoder e of
             Some v \<Rightarrow> v
           | None \<Rightarrow> (case asStatuser e of Some v \<Rightarrow> v | None \<Rightarrow> 0)))"

definition Code :: "error \<Rightarrow> string" where
  "Code err =
     (case Cause err of
        None \<Rightarrow> []
      | Some e \<Rightarrow> (case asCoder e of Some c \<Rightarrow> c | None \<Rightarrow> []))"

text \<open>
  Line 163 is written \<^verbatim>\<open>for err == nil { return false }\<close>: the body returns at once, so
  the loop is a conditional.
\<close>

definition IsTemporary :: "error \<Rightarrow> bool" where
  "IsTemporary err =
     (case Cause err of
        None \<Rightarrow> False
      | Some e \<Rightarrow> (case asTemporaryer e of Some t \<Rightarrow> t | None \<Rightarrow> False))"

text \<open>\<^verbatim>\<open>IsPublic\<close> (line 309) asserts on the error as given; on nil the assertion fails.\<close>

definition IsPublic :: "error \<Rightarrow> bool" where
  "IsPublic err =
     (case err of
        None \<Rightarrow> False
      | Some e \<Rightarrow> (case asPublicer e of Some p \<Rightarrow> p | None \<Rightarrow> False))"

section \<open>Constructors\<close>

text \<open>
  The loop of \<^verbatim>\<open>makeMessage\<close> (lines 239-244), with the slice \<^verbatim>\<open>messages\<close> as accumulator.
  The slice starts nil or empty with a capacity; both have length 0.
\<close>

fun makeMessage_loop :: "string list \<Rightarrow> string list \<Rightarrow> string list" where
  "makeMessage_loop [] messages = messages"
| "makeMessage_loop (msg # msgs) messages =
     (let msg' = TrimSpace msg
      in if msg' \<noteq> [] then makeMessage_loop msgs (messages @ [msg'])
         else makeMessage_loop msgs messages)"

definition makeMessage :: "string \<Rightarrow> string list \<Rightarrow> string" where
  "makeMessage defaultMsg msgs =
     (let messages = makeMessage_loop msgs []
      in if length messages = 0 then defaultMsg else Join messages '' '')"

definition Public :: "string \<Rightarrow> int \<Rightarrow> err" where
  "Public message status = PublicStatusError message status"

definition PublicWithCode :: "string \<Rightarrow> int \<Rightarrow> string \<Rightarrow> err" where
  "PublicWithCode message status code =
     (let code' = TrimSpace code
      in if code' = [] then Public message status
         else PublicStatusCodeError message status code')"



text \<open>
  \<^verbatim>\<open>stack.Caller(1)\<close> reads the call stack; the call site it returns is the argument
  \<open>caller\<close> here, in its printed form.
\<close>

definition NotImplemented :: "string \<Rightarrow> string list \<Rightarrow> err" where
  "NotImplemented caller msg =
     With (Public (makeMessage ''not implemented'' msg) StatusNotImplemented)
       [(''caller'', caller)]"

definition Temporary :: "string \<Rightarrow> err" where
  "Temporary msg = Wrap (TemporaryError msg) []"


section \<open>Values of foreign types used as examples\<close>

text \<open>The type \<^verbatim>\<open>testingStatusError\<close> of the package's tests: only \<^verbatim>\<open>Error\<close> and \<^verbatim>\<open>Status\<close>.\<close>

definition testingStatusError :: "int \<Rightarrow> err" where
  "testingStatusError n =
     Other \<lparr>errorM = ''testing status error'', temporaryM = None, codeM = None,
            statusCodeM = None, statusM = Some n, publicM = None\<rparr> None"

text \<open>A type whose \<^verbatim>\<open>StatusCode()\<close> and \<^verbatim>\<open>Status()\<close> return different numbers.\<close>

definition twoStatuses :: err where
  "twoStatuses =
     Other \<lparr>errorM = ''two statuses'', temporaryM = None, codeM = None,
            statusCodeM = Some 500, statusM = Some 404, publicM = None\<rparr> None"

text \<open>
  A type that has both \<^verbatim>\<open>Public() bool\<close>, returning true, and \<^verbatim>\<open>Cause() error\<close>, returning
  an error that is not public.
\<close>

definition publicCauser :: err where
  "publicCauser =
     Other \<lparr>errorM = ''safe'', temporaryM = None, codeM = None, statusCodeM = None,
            statusM = None, publicM = Some True\<rparr>
       (Some (TemporaryError ''secret''))"

section \<open>Facts about the model\<close>

declare TrimLeft.simps [simp del] TrimRight.simps [simp del]

subsection \<open>Cause resolution\<close>

lemma anyEqual_iff: "anyEqual v xs \<longleftrightarrow> v \<in> set xs"
  by (induction xs) auto

text \<open>\<open>innermost\<close> is the loop of \<^verbatim>\<open>Cause\<close>: follow \<^verbatim>\<open>Cause()\<close> while the error is a causer.\<close>

lemma innermost_unfold:
  "innermost e = (case asCauser e of None \<Rightarrow> e | Some c \<Rightarrow> innermost c)"
  by (induction e rule: innermost.induct) simp_all

lemma asCauser_innermost: "asCauser (innermost e) = None"
  by (induction e rule: innermost.induct) simp_all

lemma innermost_not_causer: "asCauser e = None \<Longrightarrow> innermost e = e"
  by (simp add: innermost_unfold)

lemma Cause_Some: "Cause (Some e) = Some (innermost e)"
  by (simp add: Cause_def)

lemma innermost_Wrap: "innermost (Wrap e message) = innermost e"
  by (simp add: Wrap_def)

lemma With_is_wrapper: "\<exists>cause message kvs. With e keyvals = Wrapped cause message kvs"
  by (cases e) (simp_all add: With_def wrapperWith_def Wrap_def)

lemma innermost_With: "innermost (With e keyvals) = innermost e"
  by (cases e) (simp_all add: With_def wrapperWith_def Wrap_def)

subsection \<open>Trimming\<close>

lemma whiteSpace_nonempty: "w \<in> set whiteSpace \<Longrightarrow> w \<noteq> []"
  by (auto simp: whiteSpace_def)

text \<open>No encoding of a white-space rune starts another one.\<close>

lemma whiteSpace_prefix_free:
  "\<forall>a \<in> set whiteSpace. \<forall>b \<in> set whiteSpace. prefix a b \<longrightarrow> a = b"
  by (simp add: whiteSpace_def)

lemma leadingSpace_None_iff:
  "leadingSpace s = None \<longleftrightarrow> (\<forall>w \<in> set whiteSpace. \<not> prefix w s)"
  by (auto simp: leadingSpace_def find_None_iff)

lemma trailingSpace_None_iff:
  "trailingSpace s = None \<longleftrightarrow> (\<forall>w \<in> set whiteSpace. \<not> suffix w s)"
  by (auto simp: trailingSpace_def find_None_iff)

lemma TrimLeft_no_leading: "leadingSpace (TrimLeft s) = None"
proof (induction s rule: TrimLeft.induct)
  case (1 s)
  show ?case
  proof (cases "leadingSpace s")
    case None
    then show ?thesis by (simp add: TrimLeft.simps)
  next
    case (Some w)
    with 1 show ?thesis by (simp add: TrimLeft.simps)
  qed
qed

lemma TrimRight_no_trailing: "trailingSpace (TrimRight s) = None"
proof (induction s rule: TrimRight.induct)
  case (1 s)
  show ?case
  proof (cases "trailingSpace s")
    case None
    then show ?thesis by (simp add: TrimRight.simps)
  next
    case (Some w)
    with 1 show ?thesis by (simp add: TrimRight.simps)
  qed
qed

text \<open>Trimming on the right leaves a prefix, so it cannot bring white space to the front.\<close>

lemma TrimRight_prefix: "prefix (TrimRight s) s"
proof (induction s rule: TrimRight.induct)
  case (1 s)
  show ?case
  proof (cases "trailingSpace s")
    case None
    then show ?thesis by (simp add: TrimRight.simps)
  next
    case (Some w)
    let ?t = "take (length s - length w) s"
    from 1 Some have "prefix (TrimRight ?t) ?t" by simp
    moreover have "prefix ?t s" by (rule take_is_prefix)
    ultimately have "prefix (TrimRight ?t) s" by (rule prefix_order.trans)
    with Some show ?thesis by (simp add: TrimRight.simps)
  qed
qed

lemma TrimSpace_no_leading: "leadingSpace (TrimSpace s) = None"
proof -
  have "\<not> prefix w (TrimSpace s)" if w: "w \<in> set whiteSpace" for w
  proof
    assume "prefix w (TrimSpace s)"
    moreover have "prefix (TrimSpace s) (TrimLeft s)"
      unfolding TrimSpace_def by (rule TrimRight_prefix)
    ultimately have "prefix w (TrimLeft s)" by (rule prefix_order.trans)
    with w TrimLeft_no_leading [of s] show False
      by (simp add: leadingSpace_None_iff)
  qed
  then show ?thesis by (simp add: leadingSpace_None_iff)
qed

lemma TrimSpace_no_trailing: "trailingSpace (TrimSpace s) = None"
  unfolding TrimSpace_def by (rule TrimRight_no_trailing)

lemma TrimSpace_fixed:
  "leadingSpace s = None \<Longrightarrow> trailingSpace s = None \<Longrightarrow> TrimSpace s = s"
  by (simp add: TrimSpace_def TrimLeft.simps TrimRight.simps)

lemma TrimSpace_eq_iff:
  "TrimSpace s = s \<longleftrightarrow> leadingSpace s = None \<and> trailingSpace s = None"
  by (metis TrimSpace_fixed TrimSpace_no_leading TrimSpace_no_trailing)

lemma TrimSpace_idem: "TrimSpace (TrimSpace s) = TrimSpace s"
  by (simp add: TrimSpace_fixed TrimSpace_no_leading TrimSpace_no_trailing)

subsection \<open>Blank strings\<close>

text \<open>
  A string is blank (\<open>TrimSpace s = []\<close>, the test of lines 241 and 279) exactly when it
  is empty or made of white-space runes only.
\<close>

lemma leadingSpace_append:
  assumes "w \<in> set whiteSpace"
  shows "leadingSpace (w @ rest) = Some w"
proof -
  from assms have "\<exists>x \<in> set whiteSpace. prefix x (w @ rest)"
    by (intro bexI [of _ w]) simp_all
  then obtain w' where f: "leadingSpace (w @ rest) = Some w'"
    by (cases "leadingSpace (w @ rest)") (auto simp: leadingSpace_None_iff)
  then have w': "w' \<in> set whiteSpace" "prefix w' (w @ rest)"
    unfolding leadingSpace_def by (auto simp: find_Some_iff)
  have "prefix w (w @ rest)" by simp
  with w'(2) have "prefix w' w \<or> prefix w w'" by (rule prefix_same_cases)
  with assms w'(1) whiteSpace_prefix_free have "w' = w" by blast
  with f show ?thesis by simp
qed

lemma TrimLeft_concat:
  "set ws \<subseteq> set whiteSpace \<Longrightarrow> TrimLeft (concat ws) = []"
proof (induction ws)
  case Nil
  have "leadingSpace [] = None"
    by (auto simp: leadingSpace_None_iff dest: whiteSpace_nonempty)
  then show ?case by (simp add: TrimLeft.simps)
next
  case (Cons w ws)
  then have "leadingSpace (w @ concat ws) = Some w" by (simp add: leadingSpace_append)
  with Cons show ?case by (simp add: TrimLeft.simps)
qed

lemma TrimLeft_empty_concat:
  "TrimLeft s = [] \<Longrightarrow> \<exists>ws. set ws \<subseteq> set whiteSpace \<and> s = concat ws"
proof (induction s rule: TrimLeft.induct)
  case (1 s)
  show ?case
  proof (cases "leadingSpace s")
    case None
    with 1(2) have "s = []" by (simp add: TrimLeft.simps)
    then have "set [] \<subseteq> set whiteSpace \<and> s = concat []" by simp
    then show ?thesis by blast
  next
    case (Some w)
    then have w: "w \<in> set whiteSpace" "prefix w s"
      unfolding leadingSpace_def by (auto simp: find_Some_iff)
    from Some 1(2) have "TrimLeft (drop (length w) s) = []" by (simp add: TrimLeft.simps)
    with 1(1) Some obtain ws
      where ws: "set ws \<subseteq> set whiteSpace" "drop (length w) s = concat ws"
      by blast
    from w(2) have "s = w @ drop (length w) s" by (auto simp: prefix_def)
    with ws w(1) have "set (w # ws) \<subseteq> set whiteSpace \<and> s = concat (w # ws)" by simp
    then show ?thesis by blast
  qed
qed

lemma TrimRight_empty_leading:
  "TrimRight t = [] \<Longrightarrow> t \<noteq> [] \<Longrightarrow> leadingSpace t \<noteq> None"
proof (induction t rule: TrimRight.induct)
  case (1 t)
  show ?case
  proof (cases "trailingSpace t")
    case None
    with 1(2,3) show ?thesis by (simp add: TrimRight.simps)
  next
    case (Some w)
    then have w: "w \<in> set whiteSpace" "suffix w t"
      unfolding trailingSpace_def by (auto simp: find_Some_iff)
    let ?t' = "take (length t - length w) t"
    from w(2) have t: "t = ?t' @ w" by (rule suffix_take)
    from Some 1(2) have e: "TrimRight ?t' = []" by (simp add: TrimRight.simps)
    show ?thesis
    proof (cases "?t' = []")
      case True
      with t have "t = w" by simp
      with w(1) show ?thesis by (auto simp: leadingSpace_None_iff)
    next
      case False
      with 1(1) Some e have "leadingSpace ?t' \<noteq> None" by blast
      then obtain x where x: "x \<in> set whiteSpace" "prefix x ?t'"
        by (auto simp: leadingSpace_None_iff)
      have "prefix ?t' t" by (rule take_is_prefix)
      with x(2) have "prefix x t" by (rule prefix_order.trans)
      with x(1) show ?thesis by (auto simp: leadingSpace_None_iff)
    qed
  qed
qed

lemma TrimSpace_blank_iff:
  "TrimSpace s = [] \<longleftrightarrow> (\<exists>ws. set ws \<subseteq> set whiteSpace \<and> s = concat ws)"
proof
  assume e: "TrimSpace s = []"
  have "TrimLeft s = []"
  proof (rule ccontr)
    assume "TrimLeft s \<noteq> []"
    with e have "leadingSpace (TrimLeft s) \<noteq> None"
      unfolding TrimSpace_def by (rule TrimRight_empty_leading)
    then show False by (simp add: TrimLeft_no_leading)
  qed
  then show "\<exists>ws. set ws \<subseteq> set whiteSpace \<and> s = concat ws"
    by (rule TrimLeft_empty_concat)
next
  assume "\<exists>ws. set ws \<subseteq> set whiteSpace \<and> s = concat ws"
  then have "TrimLeft s = []" using TrimLeft_concat by blast
  moreover have "trailingSpace [] = None"
    by (auto simp: trailingSpace_None_iff dest: whiteSpace_nonempty)
  ultimately show "TrimSpace s = []" by (simp add: TrimSpace_def TrimRight.simps)
qed

subsection \<open>The constructors\<close>


lemma PublicWithCode_coded:
  "TrimSpace code \<noteq> [] \<Longrightarrow>
     PublicWithCode message status code =
       PublicStatusCodeError message status (TrimSpace code)"
  by (simp add: PublicWithCode_def Let_def)

lemma PublicWithCode_blank:
  "TrimSpace code = [] \<Longrightarrow> PublicWithCode message status code = Public message status"
  by (simp add: PublicWithCode_def Let_def)

text \<open>
  The error that \<^verbatim>\<open>NotImplemented\<close> returns is the wrapper, which is not public itself; its
  cause is.
\<close>

lemma NotImplemented_itself_not_public:
  "IsPublic (Some (NotImplemented caller msg)) = False"
  by (simp add: NotImplemented_def Public_def IsPublic_def With_def wrapperWith_def Wrap_def)

section \<open>The claims\<close>

text \<open>
  Claim C10: \<^verbatim>\<open>IsPublic(nil)\<close> returns false. On a nil error the assertion to \<^verbatim>\<open>publicer\<close>
  fails, and the query returns false; it does not unwrap and it cannot fail.
\<close>

theorem IsPublic_nil: "IsPublic None = False"
  by (simp add: IsPublic_def)

text \<open>
  Claim C5: on nil every query that resolves the cause returns its zero value:
  \<^verbatim>\<open>HasCode(nil, codes...)\<close> is false for any list of codes, \<^verbatim>\<open>Code(nil)\<close> is the empty
  string, \<^verbatim>\<open>HasStatus(nil, statuses...)\<close> is false for any list of statuses, \<^verbatim>\<open>Status(nil)\<close>
  is 0 and \<^verbatim>\<open>IsTemporary(nil)\<close> is false. The functions are total, so none of them fails.
\<close>

theorem queries_on_nil:
  "HasCode None codes = False \<and>
   Code None = [] \<and>
   HasStatus None statuses = False \<and>
   Status None = 0 \<and>
   IsTemporary None = False"
  by (simp add: HasCode_def Code_def HasStatus_def Status_def IsTemporary_def Cause_def)

text \<open>
  Claim C1, as stated, at a counterexample: ``for every error \<open>e\<close> that reports itself
  public, wrapping \<open>e\<close> yields \<open>w\<close> with \<^verbatim>\<open>IsPublic(w) == false\<close>, while
  \<^verbatim>\<open>IsPublic(Cause(w))\<close> still equals \<^verbatim>\<open>IsPublic(e)\<close>''. An error of a foreign type may be
  public and a causer at once. \<^verbatim>\<open>Cause\<close> walks past it to the innermost error, so
  \<^verbatim>\<open>IsPublic(Cause(w))\<close> tests that innermost error and not \<open>e\<close>.
\<close>

theorem IsPublic_Cause_public_causer_counterexample:
  "IsPublic (Some publicCauser) = True \<and>
   IsPublic (Some (Wrap publicCauser ''ctx'')) = False \<and>
   IsPublic (Cause (Some (Wrap publicCauser ''ctx''))) \<noteq> IsPublic (Some publicCauser)"
  by (simp add: IsPublic_def Cause_def Wrap_def publicCauser_def)

text \<open>
  Claim C1, amended: \<^verbatim>\<open>IsPublic\<close> tests the error exactly as given. For every error \<open>e\<close>,
  the error \<open>w\<close> that \<^verbatim>\<open>errors.Wrap\<close> or \<^verbatim>\<open>With\<close> returns has \<^verbatim>\<open>IsPublic(w) == false\<close>, and
  \<^verbatim>\<open>IsPublic(Cause(w))\<close> equals \<^verbatim>\<open>IsPublic(Cause(e))\<close>; that is \<^verbatim>\<open>IsPublic(e)\<close> whenever \<open>e\<close>
  is not itself a causer, as every error built by \<^verbatim>\<open>Public\<close> or \<^verbatim>\<open>PublicWithCode\<close>. In
  general \<^verbatim>\<open>IsPublic(err)\<close> is true iff \<open>err\<close> itself implements \<^verbatim>\<open>publicer\<close> and its
  \<^verbatim>\<open>Public()\<close> returns true.
\<close>

theorem IsPublic_tests_error_as_given:
  "IsPublic (Some (Wrap e ctx)) = False \<and>
   IsPublic (Some (With e keyvals)) = False \<and>
   IsPublic (Cause (Some (Wrap e ctx))) = IsPublic (Cause (Some e)) \<and>
   IsPublic (Cause (Some (With e keyvals))) = IsPublic (Cause (Some e)) \<and>
   (asCauser e = None \<longrightarrow>
      IsPublic (Cause (Some (Wrap e ctx))) = IsPublic (Some e) \<and>
      IsPublic (Cause (Some (With e keyvals))) = IsPublic (Some e)) \<and>
   (IsPublic err \<longleftrightarrow> (\<exists>x. err = Some x \<and> asPublicer x = Some True))"
proof -
  have a: "IsPublic (Some (Wrap e ctx)) = False"
    by (simp add: IsPublic_def Wrap_def)
  have b: "IsPublic (Some (With e keyvals)) = False"
    using With_is_wrapper [of e keyvals] by (auto simp: IsPublic_def)
  have c: "Cause (Some (Wrap e ctx)) = Cause (Some e)"
    by (simp add: Cause_Some innermost_Wrap)
  have d: "Cause (Some (With e keyvals)) = Cause (Some e)"
    by (simp add: Cause_Some innermost_With)
  have e: "Cause (Some e) = Some e" if "asCauser e = None"
    using that by (simp add: Cause_Some innermost_not_causer)
  have f: "IsPublic err \<longleftrightarrow> (\<exists>x. err = Some x \<and> asPublicer x = Some True)"
    by (auto simp: IsPublic_def split: option.splits)
  from a b c d e f show ?thesis by simp
qed

text \<open>
  Claim C1, witness: \<^verbatim>\<open>Public("denied", 403)\<close> is not a causer and is public; wrapped, it
  is not public, and its cause is.
\<close>

theorem IsPublic_tests_error_as_given_witness:
  "asCauser (Public ''denied'' 403) = None \<and>
   IsPublic (Some (Public ''denied'' 403)) = True \<and>
   IsPublic (Some (Wrap (Public ''denied'' 403) ''ctx'')) = False \<and>
   IsPublic (Some (With (Public ''denied'' 403) [(''a'', ''b'')])) = False \<and>
   IsPublic (Cause (Some (Wrap (Public ''denied'' 403) ''ctx''))) = True \<and>
   IsPublic (Cause (Some (With (Public ''denied'' 403) [(''a'', ''b'')]))) = True"
  using IsPublic_tests_error_as_given
    [of "Public ''denied'' 403" "''ctx''" "[(''a'', ''b'')]" "Some (Public ''denied'' 403)"]
  by (simp add: Public_def IsPublic_def Cause_def)

text \<open>
  Claim C2: for every non-nil error, \<^verbatim>\<open>HasStatus(err, s1, s2, ...)\<close> is true iff the
  \<^verbatim>\<open>StatusCode()\<close> value or the \<^verbatim>\<open>Status()\<close> value of the resolved cause equals one of the
  targets. The two interfaces are tried one after the other: a cause whose \<^verbatim>\<open>StatusCode()\<close>
  matches no target and whose \<^verbatim>\<open>Status()\<close> matches one yields true, and a cause that
  implements only \<^verbatim>\<open>statuser\<close>, with value 402, matches \<^verbatim>\<open>HasStatus(err, 402)\<close>.
\<close>

theorem HasStatus_iff_either_interface:
  "(HasStatus (Some e) statuses \<longleftrightarrow>
      (\<exists>c. Cause (Some e) = Some c \<and>
           ((\<exists>v. asStatusCoder c = Some v \<and> v \<in> set statuses) \<or>
            (\<exists>v. asStatuser c = Some v \<and> v \<in> set statuses)))) \<and>
   (Cause (Some e) = Some c \<and> asStatusCoder c = Some v1 \<and> v1 \<notin> set statuses \<and>
    asStatuser c = Some v2 \<and> v2 \<in> set statuses \<longrightarrow> HasStatus (Some e) statuses) \<and>
   (Cause (Some e) = Some c \<and> asStatusCoder c = None \<and> asStatuser c = Some 402 \<longrightarrow>
    HasStatus (Some e) [402])"
  by (auto simp: HasStatus_def anyEqual_iff split: option.splits)

text \<open>
  Claim C2, witness: a wrapped error whose cause has \<^verbatim>\<open>StatusCode() == 500\<close> and
  \<^verbatim>\<open>Status() == 404\<close> has the status 404, and the \<^verbatim>\<open>testingStatusError(402)\<close> of the
  package's tests has the status 402.
\<close>

theorem HasStatus_iff_either_interface_witness:
  "Cause (Some (Wrap twoStatuses ''ctx'')) = Some twoStatuses \<and>
   asStatusCoder twoStatuses = Some 500 \<and> (500::int) \<notin> set [404] \<and>
   asStatuser twoStatuses = Some 404 \<and> (404::int) \<in> set [404] \<and>
   HasStatus (Some (Wrap twoStatuses ''ctx'')) [404] \<and>
   Cause (Some (testingStatusError 402)) = Some (testingStatusError 402) \<and>
   asStatusCoder (testingStatusError 402) = None \<and>
   asStatuser (testingStatusError 402) = Some 402 \<and>
   HasStatus (Some (testingStatusError 402)) [402]"
  using HasStatus_iff_either_interface [of "Wrap twoStatuses ''ctx''" "[404]" twoStatuses 500 404]
    HasStatus_iff_either_interface
      [of "testingStatusError 402" "[402]" "testingStatusError 402" 0 0]
  by (simp add: Cause_def Wrap_def twoStatuses_def testingStatusError_def)

text \<open>
  Claim C3, as stated, at a counterexample: ``for every non-blank code,
  \<^verbatim>\<open>Code(PublicWithCode(message, status, code)) == code\<close>''. The code \<^verbatim>\<open>" X"\<close> is not blank,
  and line 278 trims it before it is stored: the code reported is \<^verbatim>\<open>"X"\<close>.
\<close>

theorem Code_PublicWithCode_untrimmed_counterexample:
  "TrimSpace '' X'' \<noteq> [] \<and> Code (Some (PublicWithCode ''m'' 400 '' X'')) \<noteq> '' X''"
proof -
  have t: "TrimSpace '' X'' = ''X''" by code_simp
  then show ?thesis
    by (simp add: PublicWithCode_def Code_def Cause_def)
qed

text \<open>
  Claim C3, amended: for every status, every message and every non-blank code,
  \<^verbatim>\<open>Status(PublicWithCode(message, status, code)) == status\<close>,
  \<^verbatim>\<open>IsPublic(PublicWithCode(message, status, code)) == true\<close>, and
  \<^verbatim>\<open>Code(PublicWithCode(message, status, code))\<close> is \<^verbatim>\<open>strings.TrimSpace(code)\<close>, which is
  \<open>code\<close> itself exactly when \<open>code\<close> has no leading and no trailing white space.
  (By \<open>TrimSpace_blank_iff\<close>, \<open>TrimSpace code \<noteq> []\<close> says that \<open>code\<close> is neither empty nor
  made of white space only.)
\<close>

theorem PublicWithCode_nonblank_code:
  "TrimSpace code \<noteq> [] \<Longrightarrow>
     Status (Some (PublicWithCode message status code)) = status \<and>
     Code (Some (PublicWithCode message status code)) = TrimSpace code \<and>
     IsPublic (Some (PublicWithCode message status code)) = True \<and>
     (Code (Some (PublicWithCode message status code)) = code \<longleftrightarrow>
        leadingSpace code = None \<and> trailingSpace code = None)"
  by (simp add: PublicWithCode_coded Status_def Code_def IsPublic_def Cause_def
      TrimSpace_eq_iff)

text \<open>Claim C3, witness: \<^verbatim>\<open>PublicWithCode("public", 400, "XXX")\<close> of the package's tests.\<close>

theorem PublicWithCode_nonblank_code_witness:
  "TrimSpace ''XXX'' \<noteq> [] \<and>
   Status (Some (PublicWithCode ''public'' 400 ''XXX'')) = 400 \<and>
   Code (Some (PublicWithCode ''public'' 400 ''XXX'')) = ''XXX'' \<and>
   IsPublic (Some (PublicWithCode ''public'' 400 ''XXX'')) = True"
proof -
  have t: "TrimSpace ''XXX'' = ''XXX''" by code_simp
  then have h: "TrimSpace ''XXX'' \<noteq> []" by simp
  from PublicWithCode_nonblank_code [OF h, of "''public''" 400] t h show ?thesis by simp
qed

text \<open>
  Claim C4: for every message \<open>m\<close> and status \<open>s\<close>, \<^verbatim>\<open>PublicWithCode(m, s, c)\<close> with a code
  \<open>c\<close> that is empty or made of white space only (a concatenation \<open>concat ws\<close> of
  white-space runes) behaves as \<^verbatim>\<open>Public(m, s)\<close>: it is the same value, it does not
  implement \<^verbatim>\<open>coder\<close>, \<^verbatim>\<open>Code\<close> of it is the empty string, and both are public with the
  status \<open>s\<close>.
\<close>

theorem PublicWithCode_blank_code_is_Public:
  "set ws \<subseteq> set whiteSpace \<Longrightarrow> c = concat ws \<Longrightarrow>
     PublicWithCode m s c = Public m s \<and>
     asCoder (PublicWithCode m s c) = None \<and>
     Code (Some (PublicWithCode m s c)) = [] \<and>
     IsPublic (Some (PublicWithCode m s c)) = True \<and>
     IsPublic (Some (Public m s)) = True \<and>
     Status (Some (PublicWithCode m s c)) = s \<and>
     Status (Some (Public m s)) = s"
proof -
  assume "set ws \<subseteq> set whiteSpace" "c = concat ws"
  then have "TrimSpace c = []" using TrimSpace_blank_iff by blast
  then show ?thesis
    by (simp add: PublicWithCode_blank Public_def Code_def IsPublic_def Status_def Cause_def)
qed

text \<open>
  Claim C4, witness: the code made of a space, a tab and a no-break space (U+00A0), and
  the empty code of the package's tests.
\<close>

theorem PublicWithCode_blank_code_is_Public_witness:
  "set [[CHR 0x20], [CHR 0x09], [CHR 0xC2, CHR 0xA0]] \<subseteq> set whiteSpace \<and>
   [CHR 0x20, CHR 0x09, CHR 0xC2, CHR 0xA0] =
     concat [[CHR 0x20], [CHR 0x09], [CHR 0xC2, CHR 0xA0]] \<and>
   PublicWithCode ''test error'' 0 [CHR 0x20, CHR 0x09, CHR 0xC2, CHR 0xA0] =
     Public ''test error'' 0 \<and>
   Code (Some (PublicWithCode ''test error'' 0 [CHR 0x20, CHR 0x09, CHR 0xC2, CHR 0xA0])) = [] \<and>
   PublicWithCode ''test error'' 0 [] = Public ''test error'' 0 \<and>
   Code (Some (PublicWithCode ''test error'' 0 [])) = []"
proof -
  have h1: "set [[CHR 0x20], [CHR 0x09], [CHR 0xC2, CHR 0xA0]] \<subseteq> set whiteSpace"
    by (simp add: whiteSpace_def)
  have h2: "[CHR 0x20, CHR 0x09, CHR 0xC2, CHR 0xA0] =
      concat [[CHR 0x20], [CHR 0x09], [CHR 0xC2, CHR 0xA0]]"
    by simp
  have h3: "set ([] :: string list) \<subseteq> set whiteSpace" by simp
  have h4: "([] :: string) = concat []" by simp
  from PublicWithCode_blank_code_is_Public [OF h1 h2, of "''test error''" 0]
    PublicWithCode_blank_code_is_Public [OF h3 h4, of "''test error''" 0] h1 h2
  show ?thesis by blast
qed

text \<open>
  Claim C6: for every message \<open>x\<close>, \<^verbatim>\<open>IsTemporary(Temporary(x))\<close> is true and
  \<^verbatim>\<open>Temporary(x).Error()\<close> is \<open>x\<close>; after the result is wrapped with more context,
  \<^verbatim>\<open>IsTemporary\<close> is still true, because the query resolves the cause: for every error,
  wrapping leaves \<^verbatim>\<open>IsTemporary\<close> as it was.
\<close>

theorem Temporary_is_temporary_through_wrapping:
  "IsTemporary (Some (Temporary x)) = True \<and>
   Error (Temporary x) = x \<and>
   IsTemporary (Some (Wrap (Temporary x) y)) = True \<and>
   IsTemporary (Some (With (Wrap (Temporary x) y) keyvals)) = True \<and>
   IsTemporary (Some (Wrap e y)) = IsTemporary (Some e) \<and>
   IsTemporary (Some (With e keyvals)) = IsTemporary (Some e)"
proof -
  have a: "IsTemporary (Some (Wrap e y)) = IsTemporary (Some e)" for e y
    by (simp add: IsTemporary_def Cause_Some innermost_Wrap)
  have b: "IsTemporary (Some (With e keyvals)) = IsTemporary (Some e)" for e
    by (simp add: IsTemporary_def Cause_Some innermost_With)
  have c: "IsTemporary (Some (Temporary x)) = True"
    by (simp add: IsTemporary_def Cause_def Temporary_def Wrap_def)
  have d: "Error (Temporary x) = x"
    by (simp add: Temporary_def Wrap_def contextText_def)
  from a b c d show ?thesis by simp
qed




text \<open>
  Claim C9: for every message \<open>m\<close>, status \<open>s\<close> and code \<open>c\<close> whose trimmed form is not
  empty, \<^verbatim>\<open>Code(PublicWithCode(m, s, c))\<close> is \<open>c\<close> with the surrounding white space removed:
  the value implements \<^verbatim>\<open>coder\<close> with the trimmed code, which neither starts nor ends with
  a white-space rune, and which may differ from the string the caller gave (it does for
  \<^verbatim>\<open>" C "\<close>).
\<close>

theorem PublicWithCode_stores_trimmed_code:
  "TrimSpace c \<noteq> [] \<Longrightarrow>
     Code (Some (PublicWithCode m s c)) = TrimSpace c \<and>
     asCoder (PublicWithCode m s c) = Some (TrimSpace c) \<and>
     (\<forall>w \<in> set whiteSpace.
        \<not> prefix w (Code (Some (PublicWithCode m s c))) \<and>
        \<not> suffix w (Code (Some (PublicWithCode m s c)))) \<and>
     Code (Some (PublicWithCode m s '' C '')) \<noteq> '' C ''"
proof -
  assume h: "TrimSpace c \<noteq> []"
  have a: "Code (Some (PublicWithCode m s c)) = TrimSpace c" if "TrimSpace c \<noteq> []" for c
    using that by (simp add: PublicWithCode_coded Code_def Cause_def)
  have b: "asCoder (PublicWithCode m s c) = Some (TrimSpace c)"
    using h by (simp add: PublicWithCode_coded)
  have c: "\<forall>w \<in> set whiteSpace. \<not> prefix w (TrimSpace c) \<and> \<not> suffix w (TrimSpace c)"
    using TrimSpace_no_leading [of c] TrimSpace_no_trailing [of c]
    by (simp add: leadingSpace_None_iff trailingSpace_None_iff)
  have t: "TrimSpace '' C '' = ''C''" by code_simp
  then have d: "Code (Some (PublicWithCode m s '' C '')) \<noteq> '' C ''"
    by (simp add: a)
  from a [OF h] b c d show ?thesis by simp
qed

text \<open>
  Claim C9, witness: the code \<^verbatim>\<open>" CODE "\<close> is stored and reported as \<^verbatim>\<open>"CODE"\<close>, which starts
  and ends with no white space.
\<close>

theorem PublicWithCode_stores_trimmed_code_witness:
  "TrimSpace '' CODE '' \<noteq> [] \<and>
   Code (Some (PublicWithCode ''test error'' 0 '' CODE '')) = ''CODE'' \<and>
   [CHR 0x20] \<in> set whiteSpace \<and>
   \<not> prefix [CHR 0x20] (Code (Some (PublicWithCode ''test error'' 0 '' CODE ''))) \<and>
   \<not> suffix [CHR 0x20] (Code (Some (PublicWithCode ''test error'' 0 '' CODE '')))"
proof -
  have t: "TrimSpace '' CODE '' = ''CODE''" by code_simp
  then have h: "TrimSpace '' CODE '' \<noteq> []" by simp
  have w: "[CHR 0x20] \<in> set whiteSpace" by (simp add: whiteSpace_def)
  from PublicWithCode_stores_trimmed_code [OF h, of "''test error''" 0] t h w
  show ?thesis by (simp add: suffix_to_prefix)
qed

end
